theory Spec2Isabelle
  imports Complex_Main "HOL-Library.Multiset"
begin

section \<open>Numbers\<close>

text \<open>
  The program's amounts, balances, timestamps and rates are JavaScript numbers. They are
  modelled as reals: the rounding of binary floating point is not modelled, and the one
  place where the source can produce \<open>NaN\<close> (the median of no samples) returns
  \<open>None\<close>.
\<close>

section \<open>Rate aggregator (src/service/rate.ts)\<close>

text \<open>
  \<open>Promise.allSettled\<close> gives one result per fetcher: the fetched price, or a
  rejection (network error, or a payload that fails the schema).
\<close>

datatype PromiseSettledResult = is_fulfilled: fulfilled (settled_value: real) | rejected

text \<open>
  \<open>rates.sort((a, b) => a - b)\<close>: \<open>Array.prototype.sort\<close> with a comparator, as a
  stable insertion sort that places \<open>x\<close> before the first \<open>y\<close> with \<open>cmp x y \<le> 0\<close>.
\<close>

fun insert_by :: "(real \<Rightarrow> real \<Rightarrow> real) \<Rightarrow> real \<Rightarrow> real list \<Rightarrow> real list" where
  "insert_by cmp x [] = [x]"
| "insert_by cmp x (y # ys) = (if cmp x y \<le> 0 then x # y # ys else y # insert_by cmp x ys)"

definition array_sort :: "(real \<Rightarrow> real \<Rightarrow> real) \<Rightarrow> real list \<Rightarrow> real list" where
  "array_sort cmp xs = foldr (insert_by cmp) xs []"

text \<open>
  \<open>calculateAccurateRate\<close>. On the empty array the source reads \<open>rates[-1]\<close> and
  \<open>rates[0]\<close>, both \<open>undefined\<close>, and returns \<open>NaN\<close>: that is \<open>None\<close> here.
\<close>

definition calculateAccurateRate :: "real list \<Rightarrow> real option" where
  "calculateAccurateRate rates0 =
     (let rates = array_sort (\<lambda>a b. a - b) rates0;
          mid = length rates div 2
      in if length rates mod 2 \<noteq> 0 then Some (rates ! mid)
         else if rates = [] then None
         else Some ((rates ! (mid - 1) + rates ! mid) / 2))"

text \<open>
  The median in the spec's words: the samples sorted ascending; an odd count takes the
  middle element, an even count averages the two middle elements.
\<close>

definition middle_elements :: "real list \<Rightarrow> real list" where
  "middle_elements s = drop ((length s - 1) div 2) (take (length s div 2 + 1) s)"

definition median_spec :: "real list \<Rightarrow> real" where
  "median_spec xs = (let m = middle_elements (sort xs) in sum_list m / real (length m))"

record ExchangeRate =
  rate :: "real option"
  createdAt :: int

datatype rate_log = LogUpdated "real option" | LogUpdateFailed

text \<open>
  The rows of the \<open>ExchangeRate\<close> table are keyed by the unique triple
  \<open>(from, to, source)\<close> of prisma/schema.prisma. The cache (\<open>utils/cache\<close>, not among
  the sources) is a keyed store whose entries carry the time-to-live given to \<open>cache.set\<close>.
\<close>

record rate_state =
  exchangeRate :: "(string \<times> string \<times> string) \<rightharpoonup> ExchangeRate"
  cache :: "string \<rightharpoonup> (real option \<times> nat)"
  rateLog :: "rate_log list"

definition successfulRates :: "PromiseSettledResult list \<Rightarrow> real list" where
  "successfulRates results = map settled_value (filter is_fulfilled results)"

text \<open>
  \<open>RateService.updateRates\<close>, given the settled results of the fetchers and the clock.
  The \<open>throw\<close> on no successful rate lands in the \<open>catch\<close>, which only logs.
\<close>

definition updateRates :: "PromiseSettledResult list \<Rightarrow> int \<Rightarrow> rate_state \<Rightarrow> rate_state" where
  "updateRates results now s =
     (if length (successfulRates results) = 0
      then s\<lparr>rateLog := rateLog s @ [LogUpdateFailed]\<rparr>
      else
        (let accurateRate = calculateAccurateRate (successfulRates results)
         in s\<lparr>exchangeRate := (exchangeRate s)((''USDT'', ''RUB'', ''COMBINED'') \<mapsto>
                   \<lparr>rate = accurateRate, createdAt = now\<rparr>),
               cache := (cache s)(''rate:RUB:USDT'' \<mapsto> (accurateRate, 300000)),
               rateLog := rateLog s @ [LogUpdated accurateRate]\<rparr>))"

section \<open>Data model (prisma/schema.prisma)\<close>

datatype TransactionStatus = PENDING | ACCEPTED | COMPLETED | FAILED | EXPIRED | CANCELLED

text \<open>A row of \<open>Transaction\<close>; its \<open>id\<close> is the key under which the store holds it.\<close>

record Transaction =
  amount :: real
  status :: TransactionStatus
  currency :: string
  paymentMethod :: string
  userId :: "string option"
  destination :: "string option"
  callbackUrl :: "string option"
  metadata :: "string option \<times> real"
  expiresAt :: real

record User =
  uid :: string
  telegramId :: int
  username :: "string option"
  isAdmin :: bool
  balance :: real
  maxBalance :: real

text \<open>A row of \<open>Screenshot\<close>; \<open>transactionId\<close> is declared \<open>@unique\<close>.\<close>

record Screenshot =
  path :: string
  transactionId :: string
  uploaderId :: string

text \<open>The values of src/config.ts that the modelled code reads.\<close>

record config =
  MIN_PAYOUT_AMOUNT :: real
  MAX_PAYOUT_AMOUNT :: real
  ADMIN_TELEGRAM_ID :: int

section \<open>Bot state and observable effects (src/bot/index.ts)\<close>

record UserState =
  awaitingBalance :: bool
  awaitingOperatorId :: bool
  awaitingScreenshot :: bool
  currentTransactionId :: "string option"

text \<open>
  The texts the bot answers with (\<open>ctx.reply\<close>), one constructor per message of the
  source. \<open>RequestNotActive\<close> and \<open>RequestUnavailable\<close> are the two stale-state
  answers of the accept handler; \<open>RequestNotFound\<close>, \<open>TransactionNotFoundOrStale\<close> and
  \<open>TransactionNotFound\<close> are its not-found answers.
\<close>

datatype reply =
    RequestNotFound
  | RequestNotActive
  | OperatorNotFound
  | RequestUnavailable
  | AcceptError
  | RequestAccepted string
  | TransactionNotFoundOrStale
  | TransactionNotFound
  | FileUnavailable
  | UploaderNotFound
  | ScreenshotUploaded
  | UploadError
  | ActionCancelled
  | MainMenu
  | BalancePrompt
  | OperatorPrompt
  | InvalidAmount
  | NegativeAmount
  | BalanceSet real
  | BalanceError
  | OperatorSaved bool int
  | OperatorIdError

datatype error_log =
    SendPayoutRequestFailed int string
  | OperatorMissing int
  | AcceptFailed int string
  | ScreenshotFailed int
  | CallbackFailed string
  | CreateFailed
  | UnhandledRejection
  | BotError int
  | BalanceFailed int
  | OperatorFailed int

text \<open>The JSON body POSTed to a callback address.\<close>

record callback =
  cb_url :: string
  cb_external_id :: string
  cb_status :: nat
  cb_reason :: string

text \<open>A message with the accept button, as sent to an operator by \<open>sendPayoutRequest\<close>.\<close>

record payout_request =
  pr_operator :: int
  pr_shortTxId :: string
  pr_shortDestination :: string
  pr_transactionId :: string

text \<open>An armed \<open>setTimeout\<close>: the transaction id and callback address its closure holds, and the delay.\<close>

record timer =
  tm_id :: string
  tm_callback_url :: string
  tm_delay :: real

text \<open>
  The whole state: the three tables, the bot's two in-memory maps, and everything the
  program has sent out so far.
\<close>

record world =
  transactions :: "string \<rightharpoonup> Transaction"
  users :: "User list"
  screenshots :: "Screenshot list"
  userStates :: "int \<rightharpoonup> UserState"
  transactionMappings :: "string \<rightharpoonup> string"
  replies :: "(int \<times> reply) list"
  payoutRequests :: "payout_request list"
  adminMessages :: "string list"
  callbacks :: "callback list"
  timers :: "timer list"
  errorLog :: "error_log list"

definition send_reply :: "int \<Rightarrow> reply \<Rightarrow> world \<Rightarrow> world" where
  "send_reply chat r w = w\<lparr>replies := replies w @ [(chat, r)]\<rparr>"

definition log_error :: "error_log \<Rightarrow> world \<Rightarrow> world" where
  "log_error e w = w\<lparr>errorLog := errorLog w @ [e]\<rparr>"

text \<open>\<open>db.user.findUnique({ where: { telegramId } })\<close>\<close>

definition findUser :: "int \<Rightarrow> world \<Rightarrow> User option" where
  "findUser t w = find (\<lambda>u. telegramId u = t) (users w)"

text \<open>
  \<open>db.transaction.update({ where: { id }, data })\<close>: the row is selected by its id alone;
  Prisma throws when there is no such row (\<open>None\<close>).
\<close>

definition transaction_update :: "string \<Rightarrow> (Transaction \<Rightarrow> Transaction) \<Rightarrow> world \<Rightarrow> world option" where
  "transaction_update i f w =
     (case transactions w i of
        None \<Rightarrow> None
      | Some t \<Rightarrow> Some (w\<lparr>transactions := (transactions w)(i \<mapsto> f t)\<rparr>))"

definition status_of :: "world \<Rightarrow> string \<Rightarrow> TransactionStatus option" where
  "status_of w i = map_option status (transactions w i)"

definition terminal :: "TransactionStatus \<Rightarrow> bool" where
  "terminal s = (s = COMPLETED \<or> s = FAILED \<or> s = EXPIRED \<or> s = CANCELLED)"

section \<open>Short identifiers and dispatch (src/bot/index.ts, sendPayoutRequest)\<close>

record payoutData =
  pd_transactionId :: string
  pd_amount :: real
  pd_destination :: string
  pd_walletId :: string
  pd_expiresAt :: real

text \<open>\<open>s.slice(-4)\<close>: the last four characters, the whole string when it is shorter.\<close>

definition slice_last4 :: "string \<Rightarrow> string" where
  "slice_last4 s = drop (length s - 4) s"

definition saveTransactionMapping :: "string \<Rightarrow> string \<Rightarrow> world \<Rightarrow> world" where
  "saveTransactionMapping shortId fullId w =
     w\<lparr>transactionMappings := (transactionMappings w)(shortId \<mapsto> fullId)\<rparr>"

definition getFullTransactionId :: "string \<Rightarrow> world \<Rightarrow> string option" where
  "getFullTransactionId shortId w = transactionMappings w shortId"

text \<open>
  \<open>sendPayoutRequest\<close>. \<open>delivered\<close> is whether \<open>bot.telegram.sendMessage\<close> returned:
  when it throws, the \<open>catch\<close> logs and the mapping, which is saved after the send, is
  not recorded.
\<close>

definition sendPayoutRequest :: "bool \<Rightarrow> int \<Rightarrow> payoutData \<Rightarrow> world \<Rightarrow> world" where
  "sendPayoutRequest delivered operatorId pd w =
     (let shortTxId = take 11 (pd_transactionId pd);
          shortDestination = slice_last4 (pd_destination pd)
      in if delivered
         then saveTransactionMapping shortTxId (pd_transactionId pd)
                (w\<lparr>payoutRequests := payoutRequests w @
                     [\<lparr>pr_operator = operatorId, pr_shortTxId = shortTxId,
                       pr_shortDestination = shortDestination,
                       pr_transactionId = pd_transactionId pd\<rparr>]\<rparr>)
         else log_error (SendPayoutRequestFailed operatorId (pd_transactionId pd)) w)"

section \<open>Creating a payout (src/api/payout.ts, POST /payout/create)\<close>

text \<open>The values of \<open>BANKS\<close> (src/constants/banks.ts).\<close>

definition BANKS :: "string list" where
  "BANKS =
     [''sberbank'', ''tinkoff'', ''vtb'', ''alfa'', ''gazprombank'', ''interbank'', ''mts_bank'',
      ''ozon_bank'', ''open'', ''post_bank'', ''psb'', ''raiffeisen'', ''rosbank'', ''rstb'',
      ''sbp'', ''sovkom'', ''uralsib'', ''account_number'', ''humo_uzs'', ''ziraat'', ''papara'',
      ''uz_card'', ''kapital'', ''garanti'', ''enpara'', ''kuveyt'', ''ininal'', ''iban'']"

text \<open>\<open>toLowerCase\<close> on the ASCII letters; other characters are left as they are.\<close>

definition lower_char :: "char \<Rightarrow> char" where
  "lower_char c =
     (case map_of (zip ''ABCDEFGHIJKLMNOPQRSTUVWXYZ'' ''abcdefghijklmnopqrstuvwxyz'') c of
        None \<Rightarrow> c
      | Some l \<Rightarrow> l)"

definition toLowerCase :: "string \<Rightarrow> string" where
  "toLowerCase s = map lower_char s"

definition validateBankId :: "string \<Rightarrow> bool" where
  "validateBankId bankId = (toLowerCase bankId \<in> set BANKS)"

definition generateUniqueId :: "string \<Rightarrow> string" where
  "generateUniqueId uuid = ''TX_'' @ uuid"

definition validateTimes :: "real \<Rightarrow> real \<Rightarrow> bool" where
  "validateTimes expiredTime expiredOfferTime =
     (expiredTime < expiredOfferTime \<and> expiredTime > 0 \<and> expiredOfferTime > 0)"

definition validateAmount :: "config \<Rightarrow> real \<Rightarrow> bool" where
  "validateAmount cfg amt = (amt \<ge> MIN_PAYOUT_AMOUNT cfg \<and> amt \<le> MAX_PAYOUT_AMOUNT cfg)"

record create_body =
  b_destination :: string
  b_amount :: real
  b_walletId :: string
  b_expiredTime :: real
  b_expiredOfferTime :: real
  b_sbp_bank :: "string option"
  b_callback_url :: string

text \<open>The \<open>reason\<close> texts of the responses, one constructor per text of the source.\<close>

datatype reason =
    NoReason
  | UnsupportedPaymentMethod
  | AmountOutOfBounds real real
  | InvalidTimestamps
  | NoOperatorsAvailable
  | InternalServerError

record create_response =
  external_id :: string
  r_status :: nat
  r_reason :: reason
  r_code :: nat
  http_status :: nat

definition validation_error :: "reason \<Rightarrow> create_response" where
  "validation_error r =
     \<lparr>external_id = '''', r_status = 2, r_reason = r, r_code = 400, http_status = 400\<rparr>"

text \<open>
  \<open>db.transaction.create\<close>: the id is the primary key, so a second row with the same id
  is refused (\<open>None\<close>: Prisma throws).
\<close>

definition transaction_create :: "string \<Rightarrow> Transaction \<Rightarrow> world \<Rightarrow> world option" where
  "transaction_create i t w =
     (case transactions w i of
        Some _ \<Rightarrow> None
      | None \<Rightarrow> Some (w\<lparr>transactions := (transactions w)(i \<mapsto> t)\<rparr>))"

text \<open>\<open>db.user.findMany({ where: { isAdmin: true, balance: { gte: amount } } })\<close>\<close>

definition eligible_operators :: "real \<Rightarrow> world \<Rightarrow> User list" where
  "eligible_operators amt w = filter (\<lambda>u. isAdmin u \<and> balance u \<ge> amt) (users w)"

text \<open>
  The loop over the operators; \<open>deliver\<close> says for which operator the send goes
  through.
\<close>

fun notify_operators :: "(int \<Rightarrow> bool) \<Rightarrow> payoutData \<Rightarrow> User list \<Rightarrow> world \<Rightarrow> world" where
  "notify_operators deliver pd [] w = w"
| "notify_operators deliver pd (operator # rest) w =
     notify_operators deliver pd rest
       (sendPayoutRequest (deliver (telegramId operator)) (telegramId operator) pd w)"

text \<open>
  The handler of \<open>POST /payout/create\<close>. Its inputs beyond the request body are the
  configuration, the random UUID, the clock (milliseconds) and the fate of each send.
  Any exception lands in the outer \<open>catch\<close>: logged, answered with 500.
\<close>

definition payout_create ::
  "config \<Rightarrow> string \<Rightarrow> real \<Rightarrow> (int \<Rightarrow> bool) \<Rightarrow> create_body \<Rightarrow> world \<Rightarrow> create_response \<times> world" where
  "payout_create cfg uuid now deliver body w =
     (if \<not> validateBankId (b_walletId body) then (validation_error UnsupportedPaymentMethod, w)
      else if \<not> validateAmount cfg (b_amount body)
        then (validation_error (AmountOutOfBounds (MIN_PAYOUT_AMOUNT cfg) (MAX_PAYOUT_AMOUNT cfg)), w)
      else if \<not> validateTimes (b_expiredTime body) (b_expiredOfferTime body)
        then (validation_error InvalidTimestamps, w)
      else
        (let clientUniqueId = generateUniqueId uuid in
         case transaction_create clientUniqueId
                \<lparr>amount = b_amount body, status = PENDING, currency = ''RUB'',
                 paymentMethod = b_walletId body, userId = None,
                 destination = Some (b_destination body),
                 callbackUrl = Some (b_callback_url body),
                 metadata = (b_sbp_bank body, b_expiredTime body),
                 expiresAt = b_expiredOfferTime body * 1000\<rparr> w of
           None \<Rightarrow>
             (\<lparr>external_id = '''', r_status = 2, r_reason = InternalServerError, r_code = 500,
               http_status = 500\<rparr>, log_error CreateFailed w)
         | Some w1 \<Rightarrow>
             (let operators = eligible_operators (b_amount body) w1 in
              if length operators = 0 then
                (case transaction_update clientUniqueId (\<lambda>t. t\<lparr>status := FAILED\<rparr>) w1 of
                   None \<Rightarrow>
                     (\<lparr>external_id = '''', r_status = 2, r_reason = InternalServerError,
                       r_code = 500, http_status = 500\<rparr>, log_error CreateFailed w1)
                 | Some w2 \<Rightarrow>
                     (\<lparr>external_id = clientUniqueId, r_status = 2,
                       r_reason = NoOperatorsAvailable, r_code = 503, http_status = 503\<rparr>, w2))
              else
                (let w2 = notify_operators deliver
                            \<lparr>pd_transactionId = clientUniqueId, pd_amount = b_amount body,
                             pd_destination = b_destination body, pd_walletId = b_walletId body,
                             pd_expiresAt = b_expiredOfferTime body * 1000\<rparr> operators w1;
                     w3 = w2\<lparr>timers := timers w2 @
                            [\<lparr>tm_id = clientUniqueId, tm_callback_url = b_callback_url body,
                              tm_delay = (b_expiredOfferTime body - real_of_int \<lfloor>now / 1000\<rfloor>) * 1000\<rparr>]\<rparr>
                 in (\<lparr>external_id = clientUniqueId, r_status = 1, r_reason = NoReason,
                      r_code = 0, http_status = 200\<rparr>, w3)))))"

section \<open>Expiry (src/api/payout.ts, the \<open>setTimeout\<close> callback)\<close>

text \<open>
  The callback armed by \<open>payout_create\<close>, run in one piece. \<open>fetch_ok\<close> is whether the
  POST to the callback address goes through; a failure is caught and logged.
\<close>

definition send_callback :: "bool \<Rightarrow> string \<Rightarrow> string \<Rightarrow> world \<Rightarrow> world" where
  "send_callback fetch_ok clientUniqueId callback_url w =
     (if callback_url = [] then w
      else
        (let w1 = w\<lparr>callbacks := callbacks w @
                    [\<lparr>cb_url = callback_url, cb_external_id = clientUniqueId, cb_status = 3,
                      cb_reason = ''Transaction expired''\<rparr>]\<rparr>
         in if fetch_ok then w1 else log_error (CallbackFailed clientUniqueId) w1))"

definition expire_timer :: "bool \<Rightarrow> string \<Rightarrow> string \<Rightarrow> world \<Rightarrow> world" where
  "expire_timer fetch_ok clientUniqueId callback_url w =
     (case transactions w clientUniqueId of
        None \<Rightarrow> w
      | Some expiredTransaction \<Rightarrow>
          if status expiredTransaction = PENDING then
            (case transaction_update clientUniqueId (\<lambda>t. t\<lparr>status := EXPIRED\<rparr>) w of
               None \<Rightarrow> log_error UnhandledRejection w
             | Some w1 \<Rightarrow> send_callback fetch_ok clientUniqueId callback_url w1)
          else w)"

section \<open>Accepting a payout (src/bot/index.ts, handleAcceptPayout)\<close>

definition idle :: UserState where
  "idle = \<lparr>awaitingBalance = False, awaitingOperatorId = False, awaitingScreenshot = False,
           currentTransactionId = None\<rparr>"

definition awaiting_screenshot :: "string \<Rightarrow> UserState" where
  "awaiting_screenshot i = \<lparr>awaitingBalance = False, awaitingOperatorId = False,
           awaitingScreenshot = True, currentTransactionId = Some i\<rparr>"

text \<open>The \<open>catch\<close> of \<open>handleAcceptPayout\<close> on the error thrown by the re-check.\<close>

definition accept_unavailable :: "int \<Rightarrow> string \<Rightarrow> world \<Rightarrow> world" where
  "accept_unavailable fromId i w = send_reply fromId RequestUnavailable (log_error (AcceptFailed fromId i) w)"

text \<open>The same \<open>catch\<close> on any other error.\<close>

definition accept_error :: "int \<Rightarrow> string \<Rightarrow> world \<Rightarrow> world" where
  "accept_error fromId i w = send_reply fromId AcceptError (log_error (AcceptFailed fromId i) w)"

text \<open>The \<open>data\<close> of the accepting update, and what follows it once it has returned.\<close>

definition accept_patch :: "User \<Rightarrow> string \<Rightarrow> Transaction \<Rightarrow> Transaction" where
  "accept_patch user dest t = t\<lparr>userId := Some (uid user), status := ACCEPTED, destination := Some dest\<rparr>"

definition accept_done :: "int \<Rightarrow> string \<Rightarrow> string \<Rightarrow> world \<Rightarrow> world" where
  "accept_done fromId i dest w =
     send_reply fromId (RequestAccepted dest)
       (w\<lparr>userStates := (userStates w)(fromId \<mapsto> awaiting_screenshot i)\<rparr>)"

text \<open>
  \<open>handleAcceptPayout\<close>, run in one piece: the first look-up and status check, the
  look-up of the user, then the body of \<open>db.$transaction\<close> (a second look-up and status
  check, followed by an update that selects the row by its id alone).
\<close>

definition handleAcceptPayout :: "int \<Rightarrow> string \<Rightarrow> string \<Rightarrow> world \<Rightarrow> world" where
  "handleAcceptPayout fromId i dest w =
     (case transactions w i of
        None \<Rightarrow> send_reply fromId RequestNotFound w
      | Some transaction \<Rightarrow>
          if status transaction \<noteq> PENDING then send_reply fromId RequestNotActive w
          else
            (case findUser fromId w of
               None \<Rightarrow> send_reply fromId OperatorNotFound (log_error (OperatorMissing fromId) w)
             | Some user \<Rightarrow>
                 (case transactions w i of
                    None \<Rightarrow> accept_unavailable fromId i w
                  | Some currentTransaction \<Rightarrow>
                      if status currentTransaction \<noteq> PENDING then accept_unavailable fromId i w
                      else
                        (case transaction_update i (accept_patch user dest) w of
                           None \<Rightarrow> accept_error fromId i w
                         | Some w1 \<Rightarrow> accept_done fromId i dest w1))))"

text \<open>
  The handler of the accept button (\<open>ap:<short id>:<digits>\<close>): resolve the short id,
  look the transaction up, and accept with the stored destination.
\<close>

definition ap_action :: "int \<Rightarrow> string \<Rightarrow> world \<Rightarrow> world" where
  "ap_action fromId shortTxId w =
     (case getFullTransactionId shortTxId w of
        None \<Rightarrow> send_reply fromId TransactionNotFoundOrStale w
      | Some fullTransactionId \<Rightarrow>
          if fullTransactionId = [] then send_reply fromId TransactionNotFoundOrStale w
          else
            (case transactions w fullTransactionId of
               None \<Rightarrow> send_reply fromId TransactionNotFound w
             | Some transaction \<Rightarrow>
                 handleAcceptPayout fromId fullTransactionId
                   (case destination transaction of None \<Rightarrow> '''' | Some d \<Rightarrow> d) w))"

section \<open>Proof upload and cancel (src/bot/index.ts)\<close>

text \<open>
  What the outside gives \<open>handleScreenshotUpload\<close>: the path \<open>getFile\<close> reports (if any),
  whether the download and the write go through, the clock as it is printed into the file
  name, and whether the message to the administrator goes through.
\<close>

record upload_env =
  ue_file_path :: "string option"
  ue_download_ok :: bool
  ue_now :: string
  ue_admin_ok :: bool

text \<open>\<open>file_path.split(".").pop() || "jpg"\<close>\<close>

definition file_ext :: "string \<Rightarrow> string" where
  "file_ext p =
     (let e = rev (takeWhile (\<lambda>c. c \<noteq> CHR ''.'') (rev p)) in if e = [] then ''jpg'' else e)"

text \<open>
  \<open>db.screenshot.create\<close>: refused (\<open>None\<close>) when the transaction already has a
  screenshot (\<open>@unique\<close>) or does not exist (foreign key).
\<close>

definition screenshot_create :: "Screenshot \<Rightarrow> world \<Rightarrow> world option" where
  "screenshot_create s w =
     (if transactionId s \<in> set (map transactionId (screenshots w))
         \<or> transactions w (transactionId s) = None
      then None
      else Some (w\<lparr>screenshots := screenshots w @ [s]\<rparr>))"

definition upload_failed :: "int \<Rightarrow> world \<Rightarrow> world" where
  "upload_failed fromId w = send_reply fromId UploadError (log_error (ScreenshotFailed fromId) w)"

text \<open>
  \<open>handleScreenshotUpload\<close> for a photo or document message. The only gate is the
  sender's entry in \<open>userStates\<close>; the transaction's status and assigned operator are
  not read.
\<close>

definition handleScreenshotUpload :: "config \<Rightarrow> upload_env \<Rightarrow> int \<Rightarrow> world \<Rightarrow> world" where
  "handleScreenshotUpload cfg env fromId w =
     (case userStates w fromId of
        None \<Rightarrow> w
      | Some userState \<Rightarrow>
          (case currentTransactionId userState of
             None \<Rightarrow> w
           | Some txId \<Rightarrow>
               if \<not> awaitingScreenshot userState then w
               else if txId = [] then w
               else
                 (case ue_file_path env of
                    None \<Rightarrow> send_reply fromId FileUnavailable w
                  | Some file_path \<Rightarrow>
                      if file_path = [] then send_reply fromId FileUnavailable w
                      else if \<not> ue_download_ok env then upload_failed fromId w
                      else
                        (case findUser fromId w of
                           None \<Rightarrow> send_reply fromId UploaderNotFound w
                         | Some user \<Rightarrow>
                             (case screenshot_create
                                     \<lparr>path = ue_now env @ ''_'' @ txId @ ''.'' @ file_ext file_path,
                                      transactionId = txId, uploaderId = uid user\<rparr> w of
                                None \<Rightarrow> upload_failed fromId w
                              | Some w1 \<Rightarrow>
                                  (case transaction_update txId (\<lambda>t. t\<lparr>status := COMPLETED\<rparr>) w1 of
                                     None \<Rightarrow> upload_failed fromId w1
                                   | Some w2 \<Rightarrow>
                                       (let w3 = send_reply fromId ScreenshotUploaded
                                                   (w2\<lparr>userStates := (userStates w2)(fromId \<mapsto> idle)\<rparr>)
                                        in if ADMIN_TELEGRAM_ID cfg = 0 then w3
                                           else if ue_admin_ok env
                                             then w3\<lparr>adminMessages := adminMessages w3 @ [txId]\<rparr>
                                             else upload_failed fromId w3)))))))"

text \<open>
  The guard at the head of \<open>handleScreenshotUpload\<close>, as a function: the transaction
  an upload of this sender is bound to, if the sender's state lets the upload through.
\<close>

definition upload_gate :: "world \<Rightarrow> int \<Rightarrow> string option" where
  "upload_gate w fromId =
     (case userStates w fromId of
        None \<Rightarrow> None
      | Some userState \<Rightarrow>
          (case currentTransactionId userState of
             None \<Rightarrow> None
           | Some txId \<Rightarrow> if awaitingScreenshot userState \<and> txId \<noteq> [] then Some txId else None))"

text \<open>
  The handler of \<open>cancel_action\<close>. An exception of the update leaves the handler and is
  logged by \<open>bot.catch\<close>.
\<close>

definition cancel_action :: "int \<Rightarrow> world \<Rightarrow> world" where
  "cancel_action fromId w =
     (let cancelled =
            (case userStates w fromId of
               None \<Rightarrow> Some w
             | Some userState \<Rightarrow>
                 (case currentTransactionId userState of
                    None \<Rightarrow> Some w
                  | Some txId \<Rightarrow>
                      if txId = [] then Some w
                      else transaction_update txId (\<lambda>t. t\<lparr>status := CANCELLED\<rparr>) w))
      in case cancelled of
           None \<Rightarrow> log_error (BotError fromId) w
         | Some w1 \<Rightarrow>
             send_reply fromId MainMenu
               (send_reply fromId ActionCancelled
                  (w1\<lparr>userStates := (userStates w1)(fromId \<mapsto> idle)\<rparr>)))"

section \<open>The other handlers that write the bot's state (src/bot/index.ts)\<close>

text \<open>
  \<open>userStates\<close> is written at seven places of the source: in \<open>handleAcceptPayout\<close>,
  \<open>handleScreenshotUpload\<close> and the \<open>cancel_action\<close> handler above, and in the four
  handlers of this section. The answers to callback queries (\<open>answerCbQuery\<close>) are not
  part of the world.
\<close>








section \<open>Handlers that run at the same time\<close>

text \<open>
  The handlers are \<open>async\<close> functions on one event loop: a handler runs until its next
  \<open>await\<close> of a store operation, and other handlers may run before it resumes. A process
  is a handler stopped in front of such an operation, with the locals it holds:
  \<^item> \<open>AcceptFind\<close>, \<open>AcceptFindUser\<close>, \<open>AcceptRecheck\<close>, \<open>AcceptUpdate\<close>: \<open>handleAcceptPayout\<close>
    in front of its first \<open>findUnique\<close>, the look-up of the user, the \<open>findUnique\<close>
    inside \<open>db.$transaction\<close>, and the \<open>update\<close> inside it;
  \<^item> \<open>ExpireFind\<close>, \<open>ExpireUpdate\<close>, \<open>ExpireCallback\<close>: the timer callback in front of its
    \<open>findUnique\<close>, its \<open>update\<close> and its \<open>fetch\<close>.
  \<open>db.$transaction\<close> is called with no isolation level, so the store's default applies
  (for the PostgreSQL data source of prisma/schema.prisma, read committed): the look-up
  inside it sees what is committed at that moment, and its update, which selects the row
  by id alone, goes through whatever the row's status has become.
\<close>

datatype proc =
    AcceptFind int string string
  | AcceptFindUser int string string
  | AcceptRecheck int string string User
  | AcceptUpdate int string string User
  | ExpireFind bool string string
  | ExpireUpdate bool string string
  | ExpireCallback bool string string
  | Finished

fun step :: "proc \<Rightarrow> world \<Rightarrow> proc \<times> world" where
  "step (AcceptFind fromId i dest) w =
     (case transactions w i of
        None \<Rightarrow> (Finished, send_reply fromId RequestNotFound w)
      | Some transaction \<Rightarrow>
          if status transaction \<noteq> PENDING then (Finished, send_reply fromId RequestNotActive w)
          else (AcceptFindUser fromId i dest, w))"
| "step (AcceptFindUser fromId i dest) w =
     (case findUser fromId w of
        None \<Rightarrow> (Finished, send_reply fromId OperatorNotFound (log_error (OperatorMissing fromId) w))
      | Some user \<Rightarrow> (AcceptRecheck fromId i dest user, w))"
| "step (AcceptRecheck fromId i dest user) w =
     (case transactions w i of
        None \<Rightarrow> (Finished, accept_unavailable fromId i w)
      | Some currentTransaction \<Rightarrow>
          if status currentTransaction \<noteq> PENDING then (Finished, accept_unavailable fromId i w)
          else (AcceptUpdate fromId i dest user, w))"
| "step (AcceptUpdate fromId i dest user) w =
     (case transaction_update i (accept_patch user dest) w of
        None \<Rightarrow> (Finished, accept_error fromId i w)
      | Some w1 \<Rightarrow> (Finished, accept_done fromId i dest w1))"
| "step (ExpireFind fetch_ok i callback_url) w =
     (case transactions w i of
        None \<Rightarrow> (Finished, w)
      | Some expiredTransaction \<Rightarrow>
          if status expiredTransaction = PENDING then (ExpireUpdate fetch_ok i callback_url, w)
          else (Finished, w))"
| "step (ExpireUpdate fetch_ok i callback_url) w =
     (case transaction_update i (\<lambda>t. t\<lparr>status := EXPIRED\<rparr>) w of
        None \<Rightarrow> (Finished, log_error UnhandledRejection w)
      | Some w1 \<Rightarrow> (ExpireCallback fetch_ok i callback_url, w1))"
| "step (ExpireCallback fetch_ok i callback_url) w =
     (Finished, send_callback fetch_ok i callback_url w)"
| "step Finished w = (Finished, w)"

text \<open>Running one process alone for \<open>n\<close> of its steps.\<close>

fun steps :: "nat \<Rightarrow> proc \<Rightarrow> world \<Rightarrow> proc \<times> world" where
  "steps 0 p w = (p, w)"
| "steps (Suc n) p w = (case step p w of (p', w') \<Rightarrow> steps n p' w')"

text \<open>
  A schedule names, step by step, the process that runs next; \<open>run\<close> follows it from a
  list of processes and a world.
\<close>

fun run :: "nat list \<Rightarrow> proc list \<times> world \<Rightarrow> proc list \<times> world" where
  "run [] c = c"
| "run (k # ks) (ps, w) =
     (if k < length ps
      then (case step (ps ! k) w of (p', w') \<Rightarrow> run ks (ps[k := p'], w'))
      else run ks (ps, w))"


section \<open>The handlers run in one piece, as events\<close>




section \<open>Sequences of dispatches\<close>

text \<open>
  A dispatch is one call of \<open>sendPayoutRequest\<close>: whether its send goes through, the
  operator, and the payout data.
\<close>

fun dispatch_all :: "(bool \<times> int \<times> payoutData) list \<Rightarrow> world \<Rightarrow> world" where
  "dispatch_all [] w = w"
| "dispatch_all ((delivered, operatorId, pd) # rest) w =
     dispatch_all rest (sendPayoutRequest delivered operatorId pd w)"

text \<open>The ids dispatched, in order; and those among them whose send went through.\<close>

definition dispatched_ids :: "(bool \<times> int \<times> payoutData) list \<Rightarrow> string list" where
  "dispatched_ids ds = map (\<lambda>d. pd_transactionId (snd (snd d))) ds"

definition delivered_ids :: "(bool \<times> int \<times> payoutData) list \<Rightarrow> string list" where
  "delivered_ids ds = dispatched_ids (filter fst ds)"

text \<open>The latest id of a list whose first eleven characters are the short id.\<close>

definition latest_with_prefix :: "string \<Rightarrow> string list \<Rightarrow> string option" where
  "latest_with_prefix shortId ids = find (\<lambda>i. take 11 i = shortId) (rev ids)"

section \<open>Example states\<close>

definition rate_state0 :: rate_state where
  "rate_state0 =
     \<lparr>exchangeRate = [(''USDT'', ''RUB'', ''COMBINED'') \<mapsto> \<lparr>rate = Some 95, createdAt = 1000\<rparr>],
      cache = [''rate:RUB:USDT'' \<mapsto> (Some 95, 300000)],
      rateLog = [LogUpdated (Some 95)]\<rparr>"

definition cfg0 :: config where
  "cfg0 = \<lparr>MIN_PAYOUT_AMOUNT = 100, MAX_PAYOUT_AMOUNT = 1000000, ADMIN_TELEGRAM_ID = 999\<rparr>"

definition operator1 :: User where
  "operator1 = \<lparr>uid = ''u1'', telegramId = 1, username = None, isAdmin = True,
                 balance = 5000, maxBalance = 5000\<rparr>"

definition operator2 :: User where
  "operator2 = \<lparr>uid = ''u2'', telegramId = 2, username = None, isAdmin = True,
                 balance = 7000, maxBalance = 7000\<rparr>"

text \<open>No transaction yet, two operators, nothing sent.\<close>

definition world0 :: world where
  "world0 =
     \<lparr>transactions = Map.empty, users = [operator1, operator2], screenshots = [],
      userStates = Map.empty, transactionMappings = Map.empty, replies = [],
      payoutRequests = [], adminMessages = [], callbacks = [], timers = [], errorLog = []\<rparr>"

definition body0 :: create_body where
  "body0 =
     \<lparr>b_destination = ''4276123456789012'', b_amount = 500, b_walletId = ''sberbank'',
      b_expiredTime = 1000, b_expiredOfferTime = 1600, b_sbp_bank = None,
      b_callback_url = ''https://api.example.com/callback''\<rparr>"

text \<open>A transaction row in a given status, and a world that holds it under one id.\<close>

definition row0 :: "TransactionStatus \<Rightarrow> string option \<Rightarrow> Transaction" where
  "row0 st owner =
     \<lparr>amount = 500, status = st, currency = ''RUB'', paymentMethod = ''sberbank'',
      userId = owner, destination = Some ''4276123456789012'',
      callbackUrl = Some ''https://api.example.com/callback'', metadata = (None, 1000),
      expiresAt = 1600000\<rparr>"

definition world_with :: "TransactionStatus \<Rightarrow> string option \<Rightarrow> world" where
  "world_with st owner = world0\<lparr>transactions := [''TX_550e8400-e29b'' \<mapsto> row0 st owner]\<rparr>"

text \<open>Two payouts whose ids share their first eleven characters.\<close>

definition payoutA :: payoutData where
  "payoutA = \<lparr>pd_transactionId = ''TX_aaaaaaaa-1111'', pd_amount = 500,
               pd_destination = ''4276123456789012'', pd_walletId = ''sberbank'',
               pd_expiresAt = 1600000\<rparr>"

definition payoutB :: payoutData where
  "payoutB = \<lparr>pd_transactionId = ''TX_aaaaaaaa-2222'', pd_amount = 900,
               pd_destination = ''4276000000001234'', pd_walletId = ''tinkoff'',
               pd_expiresAt = 1700000\<rparr>"


definition env0 :: upload_env where
  "env0 = \<lparr>ue_file_path = Some ''photos/file_7.png'', ue_download_ok = True,
           ue_now = ''1730449671857'', ue_admin_ok = True\<rparr>"

text \<open>
  Two operators press the accept button of the same pending transaction, and the two
  handlers take turns at every store operation.
\<close>

definition two_accepts :: "proc list \<times> world" where
  "two_accepts =
     run [0, 1, 0, 1, 0, 1, 0, 1]
       ([AcceptFind 1 ''TX_550e8400-e29b'' ''4276123456789012'',
         AcceptFind 2 ''TX_550e8400-e29b'' ''4276123456789012''], world_with PENDING None)"

text \<open>
  The timer fires and reads the pending transaction; before its update the first operator's
  accept runs from start to end; then the timer's update and callback run.
\<close>

definition accept_during_expiry :: "proc list \<times> world" where
  "accept_during_expiry =
     run [0, 1, 1, 1, 1, 0, 0]
       ([ExpireFind True ''TX_550e8400-e29b'' ''https://api.example.com/callback'',
         AcceptFind 1 ''TX_550e8400-e29b'' ''4276123456789012''], world_with PENDING None)"

text \<open>
  The first operator's accept has passed both of its status checks when the timer fires
  and runs from start to end; then the accept's update runs.
\<close>

definition expiry_during_accept :: "proc list \<times> world" where
  "expiry_during_accept =
     run [1, 1, 1, 0, 0, 0, 1]
       ([ExpireFind True ''TX_550e8400-e29b'' ''https://api.example.com/callback'',
         AcceptFind 1 ''TX_550e8400-e29b'' ''4276123456789012''], world_with PENDING None)"

text \<open>
  One payout from creation on, each handler run in one piece: created with a callback
  address and both operators notified; accepted by the first operator; then either the
  proof uploaded, or the action cancelled.
\<close>

definition world_created :: world where
  "world_created = snd (payout_create cfg0 ''550e8400-e29b'' 1200000 (\<lambda>_. True) body0 world0)"

definition world_taken :: world where
  "world_taken = ap_action 1 ''TX_550e8400'' world_created"

definition world_completed :: world where
  "world_completed = handleScreenshotUpload cfg0 env0 1 world_taken"

definition world_cancelled :: world where
  "world_cancelled = cancel_action 1 world_taken"

text \<open>The same request for an amount that no operator's balance covers.\<close>

definition world_failed :: world where
  "world_failed =
     snd (payout_create cfg0 ''550e8400-e29b'' 1200000 (\<lambda>_. True) (body0\<lparr>b_amount := 8000\<rparr>) world0)"

section \<open>The median\<close>

subsection \<open>Sorting with the comparator is sorting ascending\<close>

lemma insert_by_minus: "insert_by (\<lambda>a b. a - b) x ys = insort x ys"
  by (induction ys) auto

lemma array_sort_minus: "array_sort (\<lambda>a b. a - b) xs = sort xs"
  by (induction xs) (simp_all add: array_sort_def insert_by_minus)

lemma middle_elements_odd:
  assumes "odd (length s)"
  shows "middle_elements s = [s ! (length s div 2)]"
proof -
  obtain k where k: "length s = 2 * k + 1"
    using assms by (auto elim: oddE)
  have "drop k (take (k + 1) s) = [s ! k]"
    using k by (simp add: take_Suc_conv_app_nth)
  then show ?thesis
    using k by (simp add: middle_elements_def)
qed

lemma middle_elements_even:
  assumes "even (length s)" and "s \<noteq> []"
  shows "middle_elements s = [s ! (length s div 2 - 1), s ! (length s div 2)]"
proof -
  obtain k where k: "length s = 2 * k"
    using assms(1) by (auto elim: evenE)
  with assms(2) obtain j where j: "k = Suc j"
    by (cases k) auto
  have "take (Suc (Suc j)) s = take j s @ [s ! j, s ! Suc j]"
    using k j by (simp add: take_Suc_conv_app_nth)
  moreover have "length (take j s) = j"
    using k j by simp
  ultimately have "drop j (take (Suc (Suc j)) s) = [s ! j, s ! Suc j]"
    by simp
  moreover have "(length s - 1) div 2 = j"
    using k j by simp
  ultimately show ?thesis
    using k j by (simp add: middle_elements_def)
qed

lemma calculateAccurateRate_median:
  assumes "rates \<noteq> []"
  shows "calculateAccurateRate rates = Some (median_spec rates)"
proof -
  have ne: "sort rates \<noteq> []"
    using assms by (metis length_sort length_0_conv)
  show ?thesis
  proof (cases "odd (length (sort rates))")
    case True
    then have "length rates mod 2 \<noteq> 0"
      by (simp add: odd_iff_mod_2_eq_one)
    with True show ?thesis
      by (simp add: calculateAccurateRate_def median_spec_def array_sort_minus
          middle_elements_odd Let_def)
  next
    case False
    then have "length rates mod 2 = 0"
      by simp
    with False ne show ?thesis
      by (simp add: calculateAccurateRate_def median_spec_def array_sort_minus
          middle_elements_even Let_def)
  qed
qed

lemma calculateAccurateRate_order_independent:
  "mset xs = mset ys \<Longrightarrow> calculateAccurateRate xs = calculateAccurateRate ys"
  by (metis array_sort_minus calculateAccurateRate_def sorted_list_of_multiset_mset)

lemma successfulRates_none:
  "\<forall>r \<in> set results. \<not> is_fulfilled r \<Longrightarrow> successfulRates results = []"
  by (simp add: successfulRates_def filter_empty_conv)

text \<open>
  C7: for every non-empty list of successful samples the consensus rate is the median of
  the list (sorted ascending, the middle element of an odd count, the average of the two
  middle elements of an even count), and that is the value \<open>updateRates\<close> writes to the
  \<open>COMBINED\<close> row and to the cache; samples 10, 12, 14 give 12, samples 10, 12 give 11,
  and with one of three sources failing the median of the other two is taken.
\<close>

theorem consensus_rate_is_median:
  "(successfulRates results \<noteq> [] \<longrightarrow>
      calculateAccurateRate (successfulRates results) = Some (median_spec (successfulRates results))
      \<and> exchangeRate (updateRates results now s) (''USDT'', ''RUB'', ''COMBINED'')
          = Some \<lparr>rate = Some (median_spec (successfulRates results)), createdAt = now\<rparr>
      \<and> cache (updateRates results now s) ''rate:RUB:USDT''
          = Some (Some (median_spec (successfulRates results)), 300000))
   \<and> calculateAccurateRate [10, 12, 14] = Some 12
   \<and> calculateAccurateRate [10, 12] = Some 11
   \<and> calculateAccurateRate (successfulRates [fulfilled 10, rejected, fulfilled 12]) = Some 11"
proof -
  have general: "successfulRates results \<noteq> [] \<longrightarrow>
      calculateAccurateRate (successfulRates results) = Some (median_spec (successfulRates results))
      \<and> exchangeRate (updateRates results now s) (''USDT'', ''RUB'', ''COMBINED'')
          = Some \<lparr>rate = Some (median_spec (successfulRates results)), createdAt = now\<rparr>
      \<and> cache (updateRates results now s) ''rate:RUB:USDT''
          = Some (Some (median_spec (successfulRates results)), 300000)"
    by (simp add: updateRates_def calculateAccurateRate_median Let_def)
  have odd3: "calculateAccurateRate [10, 12, 14] = Some 12"
    by (simp add: calculateAccurateRate_def array_sort_def)
  have even2: "calculateAccurateRate [10, 12] = Some 11"
    by (simp add: calculateAccurateRate_def array_sort_def)
  have one_failed: "calculateAccurateRate (successfulRates [fulfilled 10, rejected, fulfilled 12]) = Some 11"
    by (simp add: successfulRates_def calculateAccurateRate_def array_sort_def)
  from general odd3 even2 one_failed show ?thesis by blast
qed

theorem consensus_rate_is_median_witness:
  "successfulRates [fulfilled 14, rejected, fulfilled 10, fulfilled 12] \<noteq> []
   \<and> calculateAccurateRate (successfulRates [fulfilled 14, rejected, fulfilled 10, fulfilled 12]) = Some 12
   \<and> median_spec [14, 10, 12] = 12"
proof -
  have ne: "successfulRates [fulfilled 14, rejected, fulfilled 10, fulfilled 12] \<noteq> []"
    by (simp add: successfulRates_def)
  have m: "median_spec [14, 10, 12] = 12"
    by (simp add: median_spec_def middle_elements_def)
  have sr: "successfulRates [fulfilled 14, rejected, fulfilled 10, fulfilled 12] = [14, 10, 12]"
    by (simp add: successfulRates_def)
  from consensus_rate_is_median [of "[fulfilled 14, rejected, fulfilled 10, fulfilled 12]"] ne
  have "calculateAccurateRate (successfulRates [fulfilled 14, rejected, fulfilled 10, fulfilled 12])
        = Some (median_spec (successfulRates [fulfilled 14, rejected, fulfilled 10, fulfilled 12]))"
    by blast
  with ne m sr show ?thesis by simp
qed

section \<open>A cycle with no successful source\<close>

text \<open>
  C8: when no source succeeds, \<open>updateRates\<close> writes nothing: the table of consensus rows
  and the cache are what they were, so no zero or null rate is written.
\<close>

theorem no_source_no_write:
  "\<forall>r \<in> set results. \<not> is_fulfilled r \<Longrightarrow>
     exchangeRate (updateRates results now s) = exchangeRate s
     \<and> cache (updateRates results now s) = cache s"
  by (simp add: updateRates_def successfulRates_none)

theorem no_source_no_write_witness:
  "successfulRates [rejected, rejected] = []
   \<and> exchangeRate (updateRates [rejected, rejected] 2000 rate_state0) (''USDT'', ''RUB'', ''COMBINED'')
       = Some \<lparr>rate = Some 95, createdAt = 1000\<rparr>
   \<and> cache (updateRates [rejected, rejected] 2000 rate_state0) ''rate:RUB:USDT'' = Some (Some 95, 300000)"
proof -
  have h: "\<forall>r \<in> set [rejected, rejected]. \<not> is_fulfilled r" by simp
  from no_source_no_write [OF h, of 2000 rate_state0] show ?thesis
    by (simp add: rate_state0_def successfulRates_def)
qed

section \<open>Creating a payout\<close>

lemma validateBankId_sberbank: "validateBankId ''sberbank''"
  by (simp add: validateBankId_def toLowerCase_def lower_char_def BANKS_def)

lemma validateBankId_upper: "validateBankId ''SBP''"
  by (simp add: validateBankId_def toLowerCase_def lower_char_def BANKS_def)

text \<open>
  C6: a creation request whose amount lies outside the configured interval is answered
  with a validation error (code 400, no id) and leaves the whole state as it was, so no
  transaction row is persisted; an amount inside the interval passes \<open>validateAmount\<close>
  and is never answered with the amount error.
\<close>

theorem create_rejects_amount_out_of_bounds:
  "(b_amount body < MIN_PAYOUT_AMOUNT cfg \<or> b_amount body > MAX_PAYOUT_AMOUNT cfg \<longrightarrow>
      snd (payout_create cfg uuid now deliver body w) = w
      \<and> (fst (payout_create cfg uuid now deliver body w) = validation_error UnsupportedPaymentMethod
         \<or> fst (payout_create cfg uuid now deliver body w)
              = validation_error (AmountOutOfBounds (MIN_PAYOUT_AMOUNT cfg) (MAX_PAYOUT_AMOUNT cfg)))
      \<and> r_code (fst (payout_create cfg uuid now deliver body w)) = 400
      \<and> external_id (fst (payout_create cfg uuid now deliver body w)) = '''')
   \<and> (MIN_PAYOUT_AMOUNT cfg \<le> b_amount body \<and> b_amount body \<le> MAX_PAYOUT_AMOUNT cfg \<longrightarrow>
        validateAmount cfg (b_amount body)
        \<and> r_reason (fst (payout_create cfg uuid now deliver body w)) \<noteq> AmountOutOfBounds lo hi)"
proof -
  have out: "b_amount body < MIN_PAYOUT_AMOUNT cfg \<or> b_amount body > MAX_PAYOUT_AMOUNT cfg \<Longrightarrow>
      \<not> validateAmount cfg (b_amount body)"
    by (auto simp: validateAmount_def)
  have inside: "MIN_PAYOUT_AMOUNT cfg \<le> b_amount body \<and> b_amount body \<le> MAX_PAYOUT_AMOUNT cfg \<Longrightarrow>
      validateAmount cfg (b_amount body)"
    by (simp add: validateAmount_def)
  have rejected: "\<not> validateAmount cfg (b_amount body) \<Longrightarrow>
      payout_create cfg uuid now deliver body w =
        (if validateBankId (b_walletId body)
         then validation_error (AmountOutOfBounds (MIN_PAYOUT_AMOUNT cfg) (MAX_PAYOUT_AMOUNT cfg))
         else validation_error UnsupportedPaymentMethod, w)"
    by (simp add: payout_create_def)
  have passed: "validateAmount cfg (b_amount body) \<Longrightarrow>
      r_reason (fst (payout_create cfg uuid now deliver body w)) \<noteq> AmountOutOfBounds lo hi"
    by (simp add: payout_create_def validation_error_def Let_def
        split: option.splits)
  show ?thesis
    using out inside rejected passed
    by (auto simp: validation_error_def)
qed

theorem create_rejects_amount_out_of_bounds_witness:
  "(b_amount (body0\<lparr>b_amount := 50\<rparr>) < MIN_PAYOUT_AMOUNT cfg0)
   \<and> payout_create cfg0 ''550e8400-e29b'' 1200000 (\<lambda>_. True) (body0\<lparr>b_amount := 50\<rparr>) world0
       = (validation_error (AmountOutOfBounds 100 1000000), world0)
   \<and> (MIN_PAYOUT_AMOUNT cfg0 \<le> b_amount body0 \<and> b_amount body0 \<le> MAX_PAYOUT_AMOUNT cfg0)
   \<and> validateAmount cfg0 (b_amount body0)"
proof -
  have lo: "b_amount (body0\<lparr>b_amount := 50\<rparr>) < MIN_PAYOUT_AMOUNT cfg0"
    by (simp add: body0_def cfg0_def)
  have mid: "MIN_PAYOUT_AMOUNT cfg0 \<le> b_amount body0 \<and> b_amount body0 \<le> MAX_PAYOUT_AMOUNT cfg0"
    by (simp add: body0_def cfg0_def)
  have bank: "validateBankId (b_walletId (body0\<lparr>b_amount := 50\<rparr>))"
    by (simp add: body0_def validateBankId_def toLowerCase_def lower_char_def BANKS_def)
  note r1 = create_rejects_amount_out_of_bounds
      [of "body0\<lparr>b_amount := 50\<rparr>" cfg0 "''550e8400-e29b''" 1200000 "\<lambda>_. True" world0]
  note r2 = create_rejects_amount_out_of_bounds
      [of body0 cfg0 "''550e8400-e29b''" 1200000 "\<lambda>_. True" world0]
  have a: "snd (payout_create cfg0 ''550e8400-e29b'' 1200000 (\<lambda>_. True) (body0\<lparr>b_amount := 50\<rparr>) world0) = world0"
    using r1 lo by blast
  have b: "fst (payout_create cfg0 ''550e8400-e29b'' 1200000 (\<lambda>_. True) (body0\<lparr>b_amount := 50\<rparr>) world0)
             = validation_error (AmountOutOfBounds 100 1000000)"
    using bank lo by (simp add: payout_create_def validateAmount_def cfg0_def)
  have c: "validateAmount cfg0 (b_amount body0)"
    using r2 mid by blast
  from a b have "payout_create cfg0 ''550e8400-e29b'' 1200000 (\<lambda>_. True) (body0\<lparr>b_amount := 50\<rparr>) world0
       = (validation_error (AmountOutOfBounds 100 1000000), world0)"
    by (metis prod.collapse)
  with lo mid c show ?thesis by blast
qed

lemma notify_operators_transactions [simp]:
  "transactions (notify_operators deliver pd ops w) = transactions w"
  by (induction ops arbitrary: w)
     (simp_all add: sendPayoutRequest_def saveTransactionMapping_def log_error_def Let_def)

lemma notify_operators_payoutRequests:
  "map pr_operator (payoutRequests (notify_operators deliver pd ops w)) =
     map pr_operator (payoutRequests w) @ filter deliver (map telegramId ops)"
  by (induction ops arbitrary: w)
     (simp_all add: sendPayoutRequest_def saveTransactionMapping_def log_error_def Let_def)

lemma eligible_operators_transactions [simp]:
  "eligible_operators amt (w\<lparr>transactions := m\<rparr>) = eligible_operators amt w"
  by (simp add: eligible_operators_def)

text \<open>
  C5: for a valid request with a fresh id, when no operator is eligible (operator flag set
  and balance at least the amount) the new transaction ends \<open>FAILED\<close>, the answer is
  the failure with the no-operators reason (code 503), and nothing was sent: no payout
  request, no mapping, no send error, no timer. When some operator is eligible the answer
  is the success with the new id, the transaction is \<open>PENDING\<close>, and the operators
  notified are the eligible ones whose send went through.
\<close>

theorem create_without_operators_fails_unnotified:
  assumes "validateBankId (b_walletId body)"
    and "validateAmount cfg (b_amount body)"
    and "validateTimes (b_expiredTime body) (b_expiredOfferTime body)"
    and "transactions w (generateUniqueId uuid) = None"
  shows "(eligible_operators (b_amount body) w = [] \<longrightarrow>
            fst (payout_create cfg uuid now deliver body w)
              = \<lparr>external_id = generateUniqueId uuid, r_status = 2,
                 r_reason = NoOperatorsAvailable, r_code = 503, http_status = 503\<rparr>
          \<and> status_of (snd (payout_create cfg uuid now deliver body w)) (generateUniqueId uuid)
              = Some FAILED
          \<and> payoutRequests (snd (payout_create cfg uuid now deliver body w)) = payoutRequests w
          \<and> transactionMappings (snd (payout_create cfg uuid now deliver body w))
              = transactionMappings w
          \<and> errorLog (snd (payout_create cfg uuid now deliver body w)) = errorLog w
          \<and> timers (snd (payout_create cfg uuid now deliver body w)) = timers w)
       \<and> (eligible_operators (b_amount body) w \<noteq> [] \<longrightarrow>
            fst (payout_create cfg uuid now deliver body w)
              = \<lparr>external_id = generateUniqueId uuid, r_status = 1, r_reason = NoReason,
                 r_code = 0, http_status = 200\<rparr>
          \<and> status_of (snd (payout_create cfg uuid now deliver body w)) (generateUniqueId uuid)
              = Some PENDING
          \<and> map pr_operator (payoutRequests (snd (payout_create cfg uuid now deliver body w)))
              = map pr_operator (payoutRequests w)
                @ filter deliver (map telegramId (eligible_operators (b_amount body) w)))"
proof (intro conjI impI)
  assume none: "eligible_operators (b_amount body) w = []"
  have run: "payout_create cfg uuid now deliver body w =
      (\<lparr>external_id = generateUniqueId uuid, r_status = 2, r_reason = NoOperatorsAvailable,
        r_code = 503, http_status = 503\<rparr>,
       w\<lparr>transactions := (transactions w)(generateUniqueId uuid \<mapsto>
            \<lparr>amount = b_amount body, status = FAILED, currency = ''RUB'',
             paymentMethod = b_walletId body, userId = None,
             destination = Some (b_destination body),
             callbackUrl = Some (b_callback_url body),
             metadata = (b_sbp_bank body, b_expiredTime body),
             expiresAt = b_expiredOfferTime body * 1000\<rparr>)\<rparr>)"
    using assms none
    by (simp add: payout_create_def transaction_create_def transaction_update_def Let_def)
  show "fst (payout_create cfg uuid now deliver body w)
      = \<lparr>external_id = generateUniqueId uuid, r_status = 2,
         r_reason = NoOperatorsAvailable, r_code = 503, http_status = 503\<rparr>"
    by (simp add: run)
  show "status_of (snd (payout_create cfg uuid now deliver body w)) (generateUniqueId uuid) = Some FAILED"
    by (simp add: run status_of_def)
  show "payoutRequests (snd (payout_create cfg uuid now deliver body w)) = payoutRequests w"
    by (simp add: run)
  show "transactionMappings (snd (payout_create cfg uuid now deliver body w)) = transactionMappings w"
    by (simp add: run)
  show "errorLog (snd (payout_create cfg uuid now deliver body w)) = errorLog w"
    by (simp add: run)
  show "timers (snd (payout_create cfg uuid now deliver body w)) = timers w"
    by (simp add: run)
next
  assume some: "eligible_operators (b_amount body) w \<noteq> []"
  define w1 where "w1 = w\<lparr>transactions := (transactions w)(generateUniqueId uuid \<mapsto>
            \<lparr>amount = b_amount body, status = PENDING, currency = ''RUB'',
             paymentMethod = b_walletId body, userId = None,
             destination = Some (b_destination body),
             callbackUrl = Some (b_callback_url body),
             metadata = (b_sbp_bank body, b_expiredTime body),
             expiresAt = b_expiredOfferTime body * 1000\<rparr>)\<rparr>"
  define pd where "pd = \<lparr>pd_transactionId = generateUniqueId uuid, pd_amount = b_amount body,
             pd_destination = b_destination body, pd_walletId = b_walletId body,
             pd_expiresAt = b_expiredOfferTime body * 1000\<rparr>"
  define w2 where "w2 = notify_operators deliver pd (eligible_operators (b_amount body) w) w1"
  have run: "payout_create cfg uuid now deliver body w =
      (\<lparr>external_id = generateUniqueId uuid, r_status = 1, r_reason = NoReason,
        r_code = 0, http_status = 200\<rparr>,
       w2\<lparr>timers := timers w2 @
              [\<lparr>tm_id = generateUniqueId uuid, tm_callback_url = b_callback_url body,
                tm_delay = (b_expiredOfferTime body - real_of_int \<lfloor>now / 1000\<rfloor>) * 1000\<rparr>]\<rparr>)"
    using assms some
    by (simp add: payout_create_def transaction_create_def Let_def w1_def w2_def pd_def)
  show "fst (payout_create cfg uuid now deliver body w)
      = \<lparr>external_id = generateUniqueId uuid, r_status = 1, r_reason = NoReason,
         r_code = 0, http_status = 200\<rparr>"
    by (simp add: run)
  show "status_of (snd (payout_create cfg uuid now deliver body w)) (generateUniqueId uuid) = Some PENDING"
    by (simp add: run status_of_def w2_def w1_def)
  show "map pr_operator (payoutRequests (snd (payout_create cfg uuid now deliver body w)))
      = map pr_operator (payoutRequests w)
        @ filter deliver (map telegramId (eligible_operators (b_amount body) w))"
    by (simp add: run w2_def notify_operators_payoutRequests w1_def)
qed

theorem create_without_operators_fails_unnotified_witness:
  "validateBankId (b_walletId body0)
   \<and> validateAmount cfg0 8000 \<and> validateAmount cfg0 (b_amount body0)
   \<and> validateTimes (b_expiredTime body0) (b_expiredOfferTime body0)
   \<and> transactions world0 (generateUniqueId ''550e8400-e29b'') = None
   \<and> eligible_operators 8000 world0 = []
   \<and> fst (payout_create cfg0 ''550e8400-e29b'' 1200000 (\<lambda>_. True) (body0\<lparr>b_amount := 8000\<rparr>) world0)
       = \<lparr>external_id = ''TX_550e8400-e29b'', r_status = 2, r_reason = NoOperatorsAvailable,
          r_code = 503, http_status = 503\<rparr>
   \<and> status_of (snd (payout_create cfg0 ''550e8400-e29b'' 1200000 (\<lambda>_. True)
                       (body0\<lparr>b_amount := 8000\<rparr>) world0)) ''TX_550e8400-e29b'' = Some FAILED
   \<and> payoutRequests (snd (payout_create cfg0 ''550e8400-e29b'' 1200000 (\<lambda>_. True)
                            (body0\<lparr>b_amount := 8000\<rparr>) world0)) = []
   \<and> eligible_operators (b_amount body0) world0 \<noteq> []
   \<and> fst (payout_create cfg0 ''550e8400-e29b'' 1200000 (\<lambda>_. True) body0 world0)
       = \<lparr>external_id = ''TX_550e8400-e29b'', r_status = 1, r_reason = NoReason,
          r_code = 0, http_status = 200\<rparr>
   \<and> map pr_operator (payoutRequests (snd (payout_create cfg0 ''550e8400-e29b'' 1200000
                                               (\<lambda>_. True) body0 world0))) = [1, 2]"
proof -
  have bank: "validateBankId (b_walletId body0)"
    by (simp add: body0_def validateBankId_def toLowerCase_def lower_char_def BANKS_def)
  have bank': "validateBankId (b_walletId (body0\<lparr>b_amount := 8000\<rparr>))"
    using bank by simp
  have amt: "validateAmount cfg0 (b_amount body0)"
    by (simp add: validateAmount_def cfg0_def body0_def)
  have amt': "validateAmount cfg0 (b_amount (body0\<lparr>b_amount := 8000\<rparr>))"
    by (simp add: validateAmount_def cfg0_def)
  have times: "validateTimes (b_expiredTime body0) (b_expiredOfferTime body0)"
    by (simp add: validateTimes_def body0_def)
  have times': "validateTimes (b_expiredTime (body0\<lparr>b_amount := 8000\<rparr>))
                  (b_expiredOfferTime (body0\<lparr>b_amount := 8000\<rparr>))"
    using times by simp
  have fresh: "transactions world0 (generateUniqueId ''550e8400-e29b'') = None"
    by (simp add: world0_def)
  have none: "eligible_operators (b_amount (body0\<lparr>b_amount := 8000\<rparr>)) world0 = []"
    by (simp add: eligible_operators_def world0_def operator1_def operator2_def)
  have some: "eligible_operators (b_amount body0) world0 = [operator1, operator2]"
    by (simp add: eligible_operators_def world0_def operator1_def operator2_def body0_def)
  note failed = create_without_operators_fails_unnotified
      [OF bank' amt' times' fresh, of 1200000 "\<lambda>_. True"]
  note created = create_without_operators_fails_unnotified
      [OF bank amt times fresh, of 1200000 "\<lambda>_. True"]
  from failed none
  have f: "fst (payout_create cfg0 ''550e8400-e29b'' 1200000 (\<lambda>_. True) (body0\<lparr>b_amount := 8000\<rparr>) world0)
       = \<lparr>external_id = generateUniqueId ''550e8400-e29b'', r_status = 2, r_reason = NoOperatorsAvailable,
          r_code = 503, http_status = 503\<rparr>
     \<and> status_of (snd (payout_create cfg0 ''550e8400-e29b'' 1200000 (\<lambda>_. True)
                       (body0\<lparr>b_amount := 8000\<rparr>) world0)) (generateUniqueId ''550e8400-e29b'') = Some FAILED
     \<and> payoutRequests (snd (payout_create cfg0 ''550e8400-e29b'' 1200000 (\<lambda>_. True)
                            (body0\<lparr>b_amount := 8000\<rparr>) world0)) = payoutRequests world0"
    by blast
  from created some
  have c: "fst (payout_create cfg0 ''550e8400-e29b'' 1200000 (\<lambda>_. True) body0 world0)
       = \<lparr>external_id = generateUniqueId ''550e8400-e29b'', r_status = 1, r_reason = NoReason,
          r_code = 0, http_status = 200\<rparr>
     \<and> map pr_operator (payoutRequests (snd (payout_create cfg0 ''550e8400-e29b'' 1200000
                                               (\<lambda>_. True) body0 world0)))
        = map pr_operator (payoutRequests world0) @ filter (\<lambda>_. True) (map telegramId [operator1, operator2])"
    by simp
  have g: "generateUniqueId ''550e8400-e29b'' = ''TX_550e8400-e29b''"
    by (simp add: generateUniqueId_def)
  have p: "payoutRequests world0 = []" by (simp add: world0_def)
  have t: "map telegramId [operator1, operator2] = [1, 2]"
    by (simp add: operator1_def operator2_def)
  from bank amt amt' times fresh none some f c show ?thesis
    unfolding g p t by simp
qed

section \<open>Expiry\<close>

text \<open>
  C9: the expiry callback applied to a transaction that is not \<open>PENDING\<close> changes
  nothing at all: no transaction state, no callback, no error logged, whether it runs in
  one piece or step by step; run a second time it again changes nothing. In general a
  second expiry after a first one changes nothing, so nothing is notified twice.
\<close>

theorem expire_not_pending_is_noop:
  "(status_of w i \<noteq> Some PENDING \<longrightarrow>
      expire_timer fetch_ok i callback_url w = w
      \<and> expire_timer fetch_ok' i callback_url (expire_timer fetch_ok i callback_url w) = w
      \<and> steps 3 (ExpireFind fetch_ok i callback_url) w = (Finished, w))
   \<and> expire_timer fetch_ok' i callback_url (expire_timer fetch_ok i callback_url w)
        = expire_timer fetch_ok i callback_url w"
proof -
  have noop: "expire_timer ok i callback_url v = v" if "status_of v i \<noteq> Some PENDING" for ok v
    using that by (auto simp: expire_timer_def status_of_def split: option.splits)
  have noop_steps: "steps 3 (ExpireFind fetch_ok i callback_url) w = (Finished, w)"
    if "status_of w i \<noteq> Some PENDING"
    using that by (auto simp: numeral_3_eq_3 status_of_def split: option.splits)
  have after: "status_of (expire_timer fetch_ok i callback_url w) i \<noteq> Some PENDING"
    by (auto simp: expire_timer_def status_of_def transaction_update_def send_callback_def
        log_error_def Let_def split: option.splits)
  show ?thesis
    using noop noop_steps after by metis
qed

theorem expire_not_pending_is_noop_witness:
  "status_of (world_with EXPIRED None) ''TX_550e8400-e29b'' \<noteq> Some PENDING
   \<and> expire_timer True ''TX_550e8400-e29b'' ''https://api.example.com/callback''
        (world_with EXPIRED None) = world_with EXPIRED None
   \<and> expire_timer True ''TX_550e8400-e29b'' ''https://api.example.com/callback''
        (expire_timer True ''TX_550e8400-e29b'' ''https://api.example.com/callback''
           (world_with EXPIRED None)) = world_with EXPIRED None
   \<and> callbacks (expire_timer True ''TX_550e8400-e29b'' ''https://api.example.com/callback''
        (expire_timer True ''TX_550e8400-e29b'' ''https://api.example.com/callback''
           (world_with EXPIRED None))) = []"
proof -
  have h: "status_of (world_with EXPIRED None) ''TX_550e8400-e29b'' \<noteq> Some PENDING"
    by (simp add: status_of_def world_with_def row0_def)
  have c: "callbacks (world_with EXPIRED None) = []"
    by (simp add: world_with_def world0_def)
  from expire_not_pending_is_noop
         [of "world_with EXPIRED None" "''TX_550e8400-e29b''" True
             "''https://api.example.com/callback''" True] h c
  show ?thesis by simp
qed

section \<open>Short identifiers\<close>

lemma getFullTransactionId_send:
  "getFullTransactionId shortId (sendPayoutRequest delivered operatorId pd w) =
     (if delivered \<and> take 11 (pd_transactionId pd) = shortId then Some (pd_transactionId pd)
      else getFullTransactionId shortId w)"
  by (simp add: getFullTransactionId_def sendPayoutRequest_def saveTransactionMapping_def
      log_error_def Let_def)

lemma find_append_case:
  "find P (xs @ ys) = (case find P xs of None \<Rightarrow> find P ys | Some x \<Rightarrow> Some x)"
  by (induction xs) auto

lemma getFullTransactionId_dispatch_all:
  "getFullTransactionId shortId (dispatch_all ds w) =
     (case latest_with_prefix shortId (delivered_ids ds) of
        Some i \<Rightarrow> Some i
      | None \<Rightarrow> getFullTransactionId shortId w)"
proof (induction ds arbitrary: w)
  case Nil
  then show ?case
    by (simp add: latest_with_prefix_def delivered_ids_def dispatched_ids_def)
next
  case (Cons d ds)
  obtain delivered operatorId pd where d: "d = (delivered, operatorId, pd)"
    by (cases d) auto
  show ?case
    by (simp add: d Cons.IH getFullTransactionId_send latest_with_prefix_def delivered_ids_def
        dispatched_ids_def find_append_case split: option.splits)
qed

text \<open>
  C10, as stated, fails: after a dispatch of one transaction whose send goes through and a
  later dispatch of a second transaction with the same first eleven characters whose send
  fails, the short id still resolves to the first, not to the most recently dispatched.
\<close>

theorem latest_dispatch_not_resolved_counterexample:
  "dispatched_ids [(True, 1, payoutA), (False, 1, payoutB)] = [''TX_aaaaaaaa-1111'', ''TX_aaaaaaaa-2222'']
   \<and> latest_with_prefix ''TX_aaaaaaaa''
        (dispatched_ids [(True, 1, payoutA), (False, 1, payoutB)]) = Some ''TX_aaaaaaaa-2222''
   \<and> getFullTransactionId ''TX_aaaaaaaa''
        (dispatch_all [(True, 1, payoutA), (False, 1, payoutB)] world0) = Some ''TX_aaaaaaaa-1111''"
  by (simp add: dispatched_ids_def latest_with_prefix_def payoutA_def payoutB_def
      getFullTransactionId_send)

text \<open>
  C10, amended: the short id of a generated id is its first eleven characters, \<open>TX_\<close>
  and the first eight characters of the UUID; after any sequence of dispatches a short id
  resolves to the id of the latest dispatch whose send went through and whose id has
  that short id, and to what it resolved to before when there is none; when a short id
  resolves to nothing the accept button is answered with not-found and no transaction
  changes.
\<close>

theorem short_id_resolves_latest_delivered:
  "(8 \<le> length uuid \<longrightarrow>
      take 11 (generateUniqueId uuid) = ''TX_'' @ take 8 uuid
      \<and> length (take 11 (generateUniqueId uuid)) = 11)
   \<and> getFullTransactionId shortId (dispatch_all ds w) =
       (case latest_with_prefix shortId (delivered_ids ds) of
          Some i \<Rightarrow> Some i
        | None \<Rightarrow> getFullTransactionId shortId w)
   \<and> (getFullTransactionId shortId w = None \<longrightarrow>
        ap_action fromId shortId w = send_reply fromId TransactionNotFoundOrStale w
        \<and> transactions (ap_action fromId shortId w) = transactions w)"
  by (simp add: getFullTransactionId_dispatch_all generateUniqueId_def ap_action_def
      send_reply_def)

theorem short_id_resolves_latest_delivered_witness:
  "8 \<le> length ''550e8400-e29b-41d4-a716-446655440000''
   \<and> take 11 (generateUniqueId ''550e8400-e29b-41d4-a716-446655440000'') = ''TX_550e8400''
   \<and> getFullTransactionId ''TX_aaaaaaaa''
        (dispatch_all [(True, 1, payoutA), (True, 2, payoutB), (False, 1, payoutA)] world0)
       = Some ''TX_aaaaaaaa-2222''
   \<and> getFullTransactionId ''TX_bbbbbbbb'' world0 = None
   \<and> replies (ap_action 1 ''TX_bbbbbbbb'' world0) = [(1, TransactionNotFoundOrStale)]
   \<and> transactions (ap_action 1 ''TX_bbbbbbbb'' world0) = transactions world0"
proof -
  have len: "8 \<le> length ''550e8400-e29b-41d4-a716-446655440000''" by simp
  have unknown: "getFullTransactionId ''TX_bbbbbbbb'' world0 = None"
    by (simp add: getFullTransactionId_def world0_def)
  have latest: "latest_with_prefix ''TX_aaaaaaaa''
      (delivered_ids [(True, 1, payoutA), (True, 2, payoutB), (False, 1, payoutA)])
      = Some ''TX_aaaaaaaa-2222''"
    by (simp add: latest_with_prefix_def delivered_ids_def dispatched_ids_def payoutA_def
        payoutB_def)
  note r1 = short_id_resolves_latest_delivered
      [of "''550e8400-e29b-41d4-a716-446655440000''" "''TX_aaaaaaaa''"
          "[(True, 1, payoutA), (True, 2, payoutB), (False, 1, payoutA)]" world0 1]
  note r2 = short_id_resolves_latest_delivered
      [of "''550e8400-e29b-41d4-a716-446655440000''" "''TX_bbbbbbbb''" "[]" world0 1]
  have a: "take 11 (generateUniqueId ''550e8400-e29b-41d4-a716-446655440000'') = ''TX_550e8400''"
    using r1 len by simp
  have b: "getFullTransactionId ''TX_aaaaaaaa''
        (dispatch_all [(True, 1, payoutA), (True, 2, payoutB), (False, 1, payoutA)] world0)
       = Some ''TX_aaaaaaaa-2222''"
    using r1 latest by simp
  have c: "ap_action 1 ''TX_bbbbbbbb'' world0 = send_reply 1 TransactionNotFoundOrStale world0
        \<and> transactions (ap_action 1 ''TX_bbbbbbbb'' world0) = transactions world0"
    using r2 unknown by blast
  have d: "replies (send_reply 1 TransactionNotFoundOrStale world0) = [(1, TransactionNotFoundOrStale)]"
    by (simp add: send_reply_def world0_def)
  from c d have e: "replies (ap_action 1 ''TX_bbbbbbbb'' world0) = [(1, TransactionNotFoundOrStale)]"
    by simp
  from c have f: "transactions (ap_action 1 ''TX_bbbbbbbb'' world0) = transactions world0"
    by blast
  from len a b unknown e f show ?thesis by blast
qed

section \<open>Proof upload\<close>






subsection \<open>Which handlers let an upload through\<close>


lemma upload_gate_reset:
  "userStates w' = (userStates w)(f \<mapsto> us) \<Longrightarrow> \<not> awaitingScreenshot us \<Longrightarrow>
     upload_gate w' g = Some i \<Longrightarrow> upload_gate w g = Some i"
  by (auto simp: upload_gate_def split: option.splits if_splits)



























section \<open>Accepting in turn and at the same time\<close>

text \<open>
  A process run alone, step after step, is the handler run in one piece.
\<close>

lemma steps_accept:
  "steps 4 (AcceptFind f i d) w = (Finished, handleAcceptPayout f i d w)"
  by (simp add: eval_nat_numeral handleAcceptPayout_def split: option.splits)

lemma steps_expire:
  "steps 3 (ExpireFind ok i url) w = (Finished, expire_timer ok i url w)"
  by (simp add: eval_nat_numeral expire_timer_def split: option.splits)

lemma accept_not_pending:
  "status_of w i = Some s \<Longrightarrow> s \<noteq> PENDING \<Longrightarrow>
     handleAcceptPayout f i d w = send_reply f RequestNotActive w"
  by (auto simp: handleAcceptPayout_def status_of_def split: option.splits)

lemma accept_pending:
  "status_of w i = Some PENDING \<Longrightarrow> findUser f w = Some u \<Longrightarrow>
     status_of (handleAcceptPayout f i d w) i = Some ACCEPTED
     \<and> map_option userId (transactions (handleAcceptPayout f i d w) i) = Some (Some (uid u))
     \<and> replies (handleAcceptPayout f i d w) = replies w @ [(f, RequestAccepted d)]"
  by (auto simp: handleAcceptPayout_def status_of_def transaction_update_def accept_done_def
      accept_patch_def send_reply_def split: option.splits)

lemma accept_twice_in_turn:
  assumes "status_of w i = Some PENDING" and "findUser f w = Some u"
  shows "handleAcceptPayout g i d' (handleAcceptPayout f i d w)
           = send_reply g RequestNotActive (handleAcceptPayout f i d w)"
  using accept_pending [OF assms] accept_not_pending by blast

lemma two_accepts_eval:
  "two_accepts =
     ([Finished, Finished],
      world0\<lparr>transactions := [''TX_550e8400-e29b'' \<mapsto>
                 (row0 PENDING None)\<lparr>userId := Some ''u2'', status := ACCEPTED,
                                      destination := Some ''4276123456789012''\<rparr>],
             userStates := [1 \<mapsto> awaiting_screenshot ''TX_550e8400-e29b'',
                            2 \<mapsto> awaiting_screenshot ''TX_550e8400-e29b''],
             replies := [(1, RequestAccepted ''4276123456789012''),
                         (2, RequestAccepted ''4276123456789012'')]\<rparr>)"
  by (simp add: two_accepts_def world_with_def world0_def row0_def findUser_def operator1_def
      operator2_def transaction_update_def accept_done_def accept_patch_def send_reply_def)

lemma accept_during_expiry_eval:
  "accept_during_expiry =
     ([Finished, Finished],
      world0\<lparr>transactions := [''TX_550e8400-e29b'' \<mapsto>
                 (row0 PENDING None)\<lparr>userId := Some ''u1'', status := EXPIRED,
                                      destination := Some ''4276123456789012''\<rparr>],
             userStates := [1 \<mapsto> awaiting_screenshot ''TX_550e8400-e29b''],
             replies := [(1, RequestAccepted ''4276123456789012'')],
             callbacks := [\<lparr>cb_url = ''https://api.example.com/callback'',
                             cb_external_id = ''TX_550e8400-e29b'', cb_status = 3,
                             cb_reason = ''Transaction expired''\<rparr>]\<rparr>)"
  by (simp add: accept_during_expiry_def world_with_def world0_def row0_def findUser_def
      operator1_def operator2_def transaction_update_def accept_done_def accept_patch_def
      send_reply_def send_callback_def)

lemma expiry_during_accept_eval:
  "expiry_during_accept =
     ([Finished, Finished],
      world0\<lparr>transactions := [''TX_550e8400-e29b'' \<mapsto>
                 (row0 PENDING None)\<lparr>userId := Some ''u1'', status := ACCEPTED,
                                      destination := Some ''4276123456789012''\<rparr>],
             userStates := [1 \<mapsto> awaiting_screenshot ''TX_550e8400-e29b''],
             replies := [(1, RequestAccepted ''4276123456789012'')],
             callbacks := [\<lparr>cb_url = ''https://api.example.com/callback'',
                             cb_external_id = ''TX_550e8400-e29b'', cb_status = 3,
                             cb_reason = ''Transaction expired''\<rparr>]\<rparr>)"
  by (simp add: expiry_during_accept_def world_with_def world0_def row0_def findUser_def
      operator1_def operator2_def transaction_update_def accept_done_def accept_patch_def
      send_reply_def send_callback_def)

text \<open>
  C1: the code at two accept presses for one pending transaction whose handlers take turns
  at each store operation. Both handlers pass both status checks before either update
  runs, and both updates go through: both operators are told that the request is
  accepted, the transaction is assigned to the second, and both are asked for the
  screenshot. Run one after the other (\<open>accept_twice_in_turn\<close>), the second is answered
  that the request is no longer active. Likewise an accept that has passed its checks
  when the expiry runs succeeds after the expiry: the callback for the expired transaction
  is sent, and then the transaction is \<open>ACCEPTED\<close>.
\<close>

theorem concurrent_accepts_both_succeed:
  "fst two_accepts = [Finished, Finished]
   \<and> replies (snd two_accepts)
       = [(1, RequestAccepted ''4276123456789012''), (2, RequestAccepted ''4276123456789012'')]
   \<and> status_of (snd two_accepts) ''TX_550e8400-e29b'' = Some ACCEPTED
   \<and> map_option userId (transactions (snd two_accepts) ''TX_550e8400-e29b'') = Some (Some ''u2'')
   \<and> upload_gate (snd two_accepts) 1 = Some ''TX_550e8400-e29b''
   \<and> upload_gate (snd two_accepts) 2 = Some ''TX_550e8400-e29b''
   \<and> fst expiry_during_accept = [Finished, Finished]
   \<and> map cb_reason (callbacks (snd expiry_during_accept)) = [''Transaction expired'']
   \<and> replies (snd expiry_during_accept) = [(1, RequestAccepted ''4276123456789012'')]
   \<and> status_of (snd expiry_during_accept) ''TX_550e8400-e29b'' = Some ACCEPTED"
  by (simp add: two_accepts_eval expiry_during_accept_eval status_of_def upload_gate_def
      awaiting_screenshot_def row0_def world0_def)

text \<open>
  C2: the code at an accept that runs between the look-up and the update of the expiry
  timer. The timer's update leaves the accepted transaction \<open>EXPIRED\<close>, a terminal
  state, with the operator still asked for the screenshot; the operator's cancel then
  turns it to \<open>CANCELLED\<close>, and the operator's upload would turn it to \<open>COMPLETED\<close>,
  each answered as a success: neither handler reads the status.
\<close>

theorem terminal_transaction_overwritten:
  "fst accept_during_expiry = [Finished, Finished]
   \<and> status_of (snd accept_during_expiry) ''TX_550e8400-e29b'' = Some EXPIRED
   \<and> replies (snd accept_during_expiry) = [(1, RequestAccepted ''4276123456789012'')]
   \<and> status_of (cancel_action 1 (snd accept_during_expiry)) ''TX_550e8400-e29b'' = Some CANCELLED
   \<and> replies (cancel_action 1 (snd accept_during_expiry))
       = [(1, RequestAccepted ''4276123456789012''), (1, ActionCancelled), (1, MainMenu)]
   \<and> status_of (handleScreenshotUpload cfg0 env0 1 (snd accept_during_expiry)) ''TX_550e8400-e29b''
       = Some COMPLETED
   \<and> replies (handleScreenshotUpload cfg0 env0 1 (snd accept_during_expiry))
       = [(1, RequestAccepted ''4276123456789012''), (1, ScreenshotUploaded)]"
  by (simp add: accept_during_expiry_eval status_of_def cancel_action_def
      handleScreenshotUpload_def awaiting_screenshot_def env0_def cfg0_def world0_def row0_def
      findUser_def operator1_def operator2_def screenshot_create_def transaction_update_def
      send_reply_def Let_def)

section \<open>Callbacks\<close>

lemma world_created_eval:
  "world_created =
     world0\<lparr>transactions := [''TX_550e8400-e29b'' \<mapsto> row0 PENDING None],
            transactionMappings := [''TX_550e8400'' \<mapsto> ''TX_550e8400-e29b''],
            payoutRequests :=
              [\<lparr>pr_operator = 1, pr_shortTxId = ''TX_550e8400'', pr_shortDestination = ''9012'',
                pr_transactionId = ''TX_550e8400-e29b''\<rparr>,
               \<lparr>pr_operator = 2, pr_shortTxId = ''TX_550e8400'', pr_shortDestination = ''9012'',
                pr_transactionId = ''TX_550e8400-e29b''\<rparr>],
            timers := [\<lparr>tm_id = ''TX_550e8400-e29b'',
                         tm_callback_url = ''https://api.example.com/callback'',
                         tm_delay = 400000\<rparr>]\<rparr>"
  by (simp add: world_created_def payout_create_def body0_def cfg0_def validateBankId_def
      toLowerCase_def lower_char_def BANKS_def validateAmount_def validateTimes_def
      generateUniqueId_def transaction_create_def world0_def eligible_operators_def
      operator1_def operator2_def sendPayoutRequest_def saveTransactionMapping_def
      slice_last4_def row0_def Let_def)

lemma world_taken_eval:
  "world_taken =
     world_created\<lparr>transactions := [''TX_550e8400-e29b'' \<mapsto> row0 ACCEPTED (Some ''u1'')],
                   userStates := [1 \<mapsto> awaiting_screenshot ''TX_550e8400-e29b''],
                   replies := [(1, RequestAccepted ''4276123456789012'')]\<rparr>"
  by (simp add: world_taken_def world_created_eval ap_action_def getFullTransactionId_def
      handleAcceptPayout_def world0_def row0_def findUser_def operator1_def operator2_def
      transaction_update_def accept_done_def accept_patch_def send_reply_def)

lemma world_completed_eval:
  "status_of world_completed ''TX_550e8400-e29b'' = Some COMPLETED
   \<and> map_option callbackUrl (transactions world_completed ''TX_550e8400-e29b'')
       = Some (Some ''https://api.example.com/callback'')
   \<and> callbacks world_completed = []
   \<and> adminMessages world_completed = [''TX_550e8400-e29b'']"
  by (simp add: world_completed_def world_taken_eval world_created_eval
      handleScreenshotUpload_def awaiting_screenshot_def env0_def cfg0_def world0_def row0_def
      findUser_def operator1_def operator2_def screenshot_create_def transaction_update_def
      send_reply_def status_of_def Let_def)

lemma world_cancelled_eval:
  "status_of world_cancelled ''TX_550e8400-e29b'' = Some CANCELLED
   \<and> callbacks world_cancelled = []"
  by (simp add: world_cancelled_def world_taken_eval world_created_eval
      cancel_action_def awaiting_screenshot_def world0_def row0_def
      transaction_update_def send_reply_def status_of_def Let_def)

lemma world_failed_eval:
  "status_of world_failed ''TX_550e8400-e29b'' = Some FAILED
   \<and> map_option callbackUrl (transactions world_failed ''TX_550e8400-e29b'')
       = Some (Some ''https://api.example.com/callback'')
   \<and> callbacks world_failed = []"
  by (simp add: world_failed_def payout_create_def body0_def cfg0_def validateBankId_def
      toLowerCase_def lower_char_def BANKS_def validateAmount_def validateTimes_def
      generateUniqueId_def transaction_create_def world0_def eligible_operators_def
      operator1_def operator2_def transaction_update_def status_of_def Let_def)

lemma upload_callbacks: "callbacks (handleScreenshotUpload cfg env f w) = callbacks w"
  by (simp add: handleScreenshotUpload_def send_reply_def upload_failed_def log_error_def
      screenshot_create_def transaction_update_def Let_def split: option.splits)

lemma cancel_callbacks: "callbacks (cancel_action f w) = callbacks w"
  by (simp add: cancel_action_def send_reply_def log_error_def transaction_update_def Let_def
      split: option.splits)

lemma notify_operators_callbacks: "callbacks (notify_operators deliver pd ops w) = callbacks w"
  by (induction ops arbitrary: w)
     (simp_all add: sendPayoutRequest_def saveTransactionMapping_def log_error_def Let_def)

lemma transaction_create_callbacks:
  "transaction_create i t w = Some w1 \<Longrightarrow> callbacks w1 = callbacks w"
  by (auto simp: transaction_create_def split: option.splits)

lemma transaction_update_callbacks:
  "transaction_update i g w = Some w1 \<Longrightarrow> callbacks w1 = callbacks w"
  by (auto simp: transaction_update_def split: option.splits)

lemma create_callbacks: "callbacks (snd (payout_create cfg uuid now deliver body w)) = callbacks w"
  by (fastforce simp: payout_create_def log_error_def notify_operators_callbacks Let_def
      dest!: transaction_create_callbacks transaction_update_callbacks split: option.splits)

lemma accept_callbacks: "callbacks (handleAcceptPayout f i d w) = callbacks w"
  by (simp add: handleAcceptPayout_def send_reply_def log_error_def accept_unavailable_def
      accept_error_def accept_done_def transaction_update_def split: option.splits)

lemma expire_pending_one_callback:
  "status_of w i = Some PENDING \<Longrightarrow> url \<noteq> [] \<Longrightarrow>
     status_of (expire_timer ok i url w) i = Some EXPIRED
     \<and> callbacks (expire_timer ok i url w) =
         callbacks w @ [\<lparr>cb_url = url, cb_external_id = i, cb_status = 3,
                          cb_reason = ''Transaction expired''\<rparr>]"
  by (auto simp: expire_timer_def status_of_def transaction_update_def send_callback_def
      log_error_def Let_def split: option.splits)

text \<open>
  C4: the code at the transitions to \<open>COMPLETED\<close>, \<open>CANCELLED\<close> and \<open>FAILED\<close>. The
  upload handler, the cancel handler and the create handler never add a callback; in
  particular a payout created with a callback address, accepted and then completed (or
  cancelled), and a payout that fails for want of an operator, end in their terminal state
  with no callback sent. Only the expiry sends one (\<open>expire_pending_one_callback\<close>).
\<close>

theorem terminal_transitions_without_callback:
  "callbacks (handleScreenshotUpload cfg env f w) = callbacks w
   \<and> callbacks (cancel_action f w) = callbacks w
   \<and> callbacks (snd (payout_create cfg uuid now deliver body w)) = callbacks w
   \<and> status_of world_completed ''TX_550e8400-e29b'' = Some COMPLETED
   \<and> map_option callbackUrl (transactions world_completed ''TX_550e8400-e29b'')
       = Some (Some ''https://api.example.com/callback'')
   \<and> callbacks world_completed = []
   \<and> status_of world_cancelled ''TX_550e8400-e29b'' = Some CANCELLED
   \<and> callbacks world_cancelled = []
   \<and> status_of world_failed ''TX_550e8400-e29b'' = Some FAILED
   \<and> callbacks world_failed = []"
  by (simp add: upload_callbacks cancel_callbacks create_callbacks world_completed_eval
      world_cancelled_eval world_failed_eval)

end
